theory Spec2Isabelle
  imports Main "HOL-Library.Word"
begin

section \<open>The voice session logic of \<^verbatim>\<open>src/components/ChatBot.tsx\<close>\<close>

text \<open>
  The component is event driven: every handler runs to completion (or to its next
  \<^verbatim>\<open>await\<close>) on one event. A handler is embedded as a function from the world before
  the event to the world after it.

  \<^item> A \<^verbatim>\<open>useState\<close> variable is a constant of the render in which a handler was
    created, so a handler \<^emph>\<open>reads\<close> such variables from the render it closes over
    (the argument \<open>r\<close>) and \<^emph>\<open>writes\<close> them through the setters into the state React
    holds (\<open>st s\<close>). A handler of the latest render has \<open>r = st s\<close>.
  \<^item> A \<^verbatim>\<open>useRef\<close> cell is read and written in place (fields of \<open>world\<close>).
  \<^item> \<^verbatim>\<open>setTimeout\<close> puts a callback, with the render it closes over, into the
    list of pending timers; \<open>fire\<close> runs one of them.
  \<^item> An \<^verbatim>\<open>await\<close> on a network request splits the function in two: the part up
    to the request, and the continuation that receives the outcome.
  \<^item> Commands to the outside (recognition engine, network, audio, object URLs) are
    appended to \<open>effects\<close>, in the order they are issued.
\<close>

subsection \<open>Strings\<close>

text \<open>A JavaScript string is a sequence of UTF-16 code units.\<close>

type_synonym jsstring = "16 word list"

definition js :: "string \<Rightarrow> jsstring" where
  "js cs = map of_char cs"

text \<open>
  \<^verbatim>\<open>String.prototype.trim\<close> (ECMAScript): removes white space and line terminators
  from both ends.
\<close>

definition isWhiteSpace :: "16 word \<Rightarrow> bool" where
  "isWhiteSpace c =
     (c \<in> {0x9, 0xA, 0xB, 0xC, 0xD, 0x20, 0xA0, 0x1680, 0x2028, 0x2029, 0x202F, 0x205F,
            0x3000, 0xFEFF}
      \<or> (0x2000 \<le> c \<and> c \<le> 0x200A))"

definition trim :: "jsstring \<Rightarrow> jsstring" where
  "trim s = rev (dropWhile isWhiteSpace (rev (dropWhile isWhiteSpace s)))"

subsection \<open>Data\<close>

datatype sender = User | Bot

text \<open>
  The text of a message: \<open>Plain t\<close> is \<open>t\<close> itself, \<open>Formatted t\<close> is what
  \<^verbatim>\<open>formatResponse\<close> (lines 380-386) makes of \<open>t\<close>. The formatter is display markup
  and is not unfolded here.
\<close>

datatype display = Plain jsstring | Formatted jsstring

text \<open>\<open>msg_id\<close> is the number whose decimal rendering is the message's id.\<close>

record message =
  msg_sender :: sender
  msg_text :: display
  msg_id :: nat

text \<open>The \<^verbatim>\<open>useState\<close> variables (lines 17-30).\<close>

record ui =
  messages :: "message list"
  query :: jsstring
  loading :: bool
  muted :: bool
  isListening :: bool
  voiceEnabled :: bool
  speechSupported :: bool
  permissionStatus :: string
  currentSpeakingId :: "nat option"
  isProcessingVoice :: bool
  isSpeaking :: bool

text \<open>The bodies handed to \<^verbatim>\<open>setTimeout\<close>.\<close>

datatype callback =
    RestartGuard
      \<comment> \<open>lines 175-179: the guarded restart of \<^verbatim>\<open>restartRecognition\<close>\<close>
  | StartRecognition
      \<comment> \<open>lines 219, 343, 358, 373, 399: \<^verbatim>\<open>() => { startRecognition(); }\<close>\<close>
  | SubmitTranscript jsstring
      \<comment> \<open>lines 115-118: \<^verbatim>\<open>sendMessage(transcript.trim()); setIsProcessingVoice(false)\<close>\<close>
  | Settle
      \<comment> \<open>line 209: the rest of \<^verbatim>\<open>startRecognition\<close> after its awaited delay\<close>

record timer =
  tm_id :: nat
  tm_delay :: nat
  tm_cb :: callback
  tm_env :: ui

datatype effect =
    RecStop
  | RecStart
  | FetchChat jsstring
  | FetchTTS jsstring
  | GetUserMedia
  | StopTracks
  | CreateObjectURL nat
  | RevokeObjectURL nat
  | AudioPlay nat
  | AudioPause nat
  | AudioRewind nat

text \<open>
  What the outside answers at the next call: the value of \<^verbatim>\<open>Date.now()\<close>, whether
  the engine's \<^verbatim>\<open>stop()\<close> and \<^verbatim>\<open>start()\<close> throw, whether \<^verbatim>\<open>getUserMedia\<close> is
  granted, whether \<^verbatim>\<open>audio.play()\<close> rejects.
\<close>

record env =
  dateNow :: nat
  stopThrows :: bool
  startThrows :: bool
  userMediaGranted :: bool
  playRejects :: bool

text \<open>
  The state React holds, the \<^verbatim>\<open>useRef\<close> cells (lines 26-31), the API key (line 35),
  the pending timers and the commands issued so far. \<open>currentAudioRef\<close> holds the
  audio element, named by the number of its object URL.
\<close>

record world =
  st :: ui
  openaiApiKey :: "jsstring option"
  recognitionRef :: bool
  restartTimeoutRef :: "nat option"
  isStartingRef :: bool
  currentAudioRef :: "nat option"
  timers :: "timer list"
  nextTimer :: nat
  nextAudio :: nat
  effects :: "effect list"
  outside :: env

subsection \<open>Setters, timers and commands\<close>

definition setMessages_append :: "message \<Rightarrow> world \<Rightarrow> world" where
  \<comment> \<open>\<^verbatim>\<open>setMessages((prev) => [...prev, m])\<close>\<close>
  "setMessages_append m s = s\<lparr>st := (st s)\<lparr>messages := messages (st s) @ [m]\<rparr>\<rparr>"

definition setQuery :: "jsstring \<Rightarrow> world \<Rightarrow> world" where
  "setQuery q s = s\<lparr>st := (st s)\<lparr>query := q\<rparr>\<rparr>"

definition setLoading :: "bool \<Rightarrow> world \<Rightarrow> world" where
  "setLoading b s = s\<lparr>st := (st s)\<lparr>loading := b\<rparr>\<rparr>"

definition setMuted :: "bool \<Rightarrow> world \<Rightarrow> world" where
  "setMuted b s = s\<lparr>st := (st s)\<lparr>muted := b\<rparr>\<rparr>"

definition setIsListening :: "bool \<Rightarrow> world \<Rightarrow> world" where
  "setIsListening b s = s\<lparr>st := (st s)\<lparr>isListening := b\<rparr>\<rparr>"

definition setVoiceEnabled :: "bool \<Rightarrow> world \<Rightarrow> world" where
  "setVoiceEnabled b s = s\<lparr>st := (st s)\<lparr>voiceEnabled := b\<rparr>\<rparr>"

definition setSpeechSupported :: "bool \<Rightarrow> world \<Rightarrow> world" where
  "setSpeechSupported b s = s\<lparr>st := (st s)\<lparr>speechSupported := b\<rparr>\<rparr>"

definition setPermissionStatus :: "string \<Rightarrow> world \<Rightarrow> world" where
  "setPermissionStatus p s = s\<lparr>st := (st s)\<lparr>permissionStatus := p\<rparr>\<rparr>"

definition setCurrentSpeakingId :: "nat option \<Rightarrow> world \<Rightarrow> world" where
  "setCurrentSpeakingId i s = s\<lparr>st := (st s)\<lparr>currentSpeakingId := i\<rparr>\<rparr>"

definition setIsProcessingVoice :: "bool \<Rightarrow> world \<Rightarrow> world" where
  "setIsProcessingVoice b s = s\<lparr>st := (st s)\<lparr>isProcessingVoice := b\<rparr>\<rparr>"

definition setIsSpeaking :: "bool \<Rightarrow> world \<Rightarrow> world" where
  "setIsSpeaking b s = s\<lparr>st := (st s)\<lparr>isSpeaking := b\<rparr>\<rparr>"

definition emit :: "effect \<Rightarrow> world \<Rightarrow> world" where
  "emit e s = s\<lparr>effects := effects s @ [e]\<rparr>"

definition setTimeout :: "callback \<Rightarrow> ui \<Rightarrow> nat \<Rightarrow> world \<Rightarrow> nat \<times> world" where
  "setTimeout cb r d s =
     (nextTimer s,
      s\<lparr>timers := timers s @ [\<lparr>tm_id = nextTimer s, tm_delay = d, tm_cb = cb, tm_env = r\<rparr>],
        nextTimer := Suc (nextTimer s)\<rparr>)"

definition clearTimeout :: "nat \<Rightarrow> world \<Rightarrow> world" where
  "clearTimeout i s = s\<lparr>timers := filter (\<lambda>t. tm_id t \<noteq> i) (timers s)\<rparr>"

definition clearRestartTimeout :: "world \<Rightarrow> world" where
  \<comment> \<open>\<^verbatim>\<open>if (restartTimeoutRef.current) clearTimeout(restartTimeoutRef.current)\<close>\<close>
  "clearRestartTimeout s =
     (case restartTimeoutRef s of None \<Rightarrow> s | Some i \<Rightarrow> clearTimeout i s)"

text \<open>The engine's methods: the command is issued; the result says whether it threw.\<close>

definition engine_stop :: "world \<Rightarrow> bool \<times> world" where
  "engine_stop s = (stopThrows (outside s), emit RecStop s)"

definition engine_start :: "world \<Rightarrow> bool \<times> world" where
  "engine_start s = (startThrows (outside s), emit RecStart s)"

subsection \<open>Mounting (lines 17-35, 43-90)\<close>

definition initial :: "jsstring option \<Rightarrow> env \<Rightarrow> world" where
  "initial key e =
     \<lparr>st = \<lparr>messages = [], query = [], loading = False, muted = False, isListening = False,
             voiceEnabled = False, speechSupported = False, permissionStatus = [],
             currentSpeakingId = None, isProcessingVoice = False, isSpeaking = False\<rparr>,
      openaiApiKey = key, recognitionRef = False, restartTimeoutRef = None,
      isStartingRef = False, currentAudioRef = None, timers = [], nextTimer = 1,
      nextAudio = 1, effects = [], outside = e\<rparr>"

text \<open>
  \<open>supported\<close>: the browser has a recognition constructor; \<open>secure\<close>: the page is on
  https or on localhost; \<open>perm\<close>: the state the permission query reports, \<open>None\<close>
  when the query throws.
\<close>

definition checkSpeechSupport :: "bool \<Rightarrow> bool \<Rightarrow> string option \<Rightarrow> world \<Rightarrow> world" where
  "checkSpeechSupport supported secure perm s =
     (if \<not> supported then setSpeechSupported False s
      else
        let s1 = setSpeechSupported True s in
        if \<not> secure then setPermissionStatus ''HTTPS required for microphone access'' s1
        else (case perm of
                Some p \<Rightarrow> setPermissionStatus p s1
              | None \<Rightarrow> setPermissionStatus ''unknown'' s1))"

definition initRecognition :: "ui \<Rightarrow> world \<Rightarrow> world" where
  \<comment> \<open>lines 80-90: the effect creates the engine object\<close>
  "initRecognition r s = (if \<not> speechSupported r then s else s\<lparr>recognitionRef := True\<rparr>)"

text \<open>
  The effect's cleanup (lines 158-165). \<open>stop()\<close> is called outside any \<^verbatim>\<open>try\<close>: when
  it throws, the \<^verbatim>\<open>clearTimeout\<close> after it is skipped (first component \<open>True\<close>). The
  cleanup stops the engine object; it does not detach the handlers from it.
\<close>

definition cleanupRecognition :: "world \<Rightarrow> bool \<times> world" where
  "cleanupRecognition s =
     (let (threw, s1) = (if recognitionRef s then engine_stop s else (False, s))
      in if threw then (True, s1) else (False, clearRestartTimeout s1))"

text \<open>
  Line 166: after a render in which \<open>speechSupported\<close>, \<open>voiceEnabled\<close> or \<open>isSpeaking\<close>
  changed, React runs the cleanup and then the effect again, which makes a new engine
  object with handlers of that render. The engine object made before keeps the
  handlers of its own render. When the cleanup throws, the effect is not run.
\<close>

definition rerunEffect :: "world \<Rightarrow> world" where
  "rerunEffect s =
     (let (threw, s1) = cleanupRecognition s
      in if threw then s1 else initRecognition (st s) s1)"

subsection \<open>Recognition: start, restart, stop (lines 168-235)\<close>

definition restartRecognition :: "ui \<Rightarrow> world \<Rightarrow> world" where
  "restartRecognition r s =
     (let s1 = clearRestartTimeout s in
      if \<not> voiceEnabled r then s1
      else if isSpeaking r then s1
      else
        let (i, s2) = setTimeout RestartGuard r 1000 s1
        in s2\<lparr>restartTimeoutRef := Some i\<rparr>)"

text \<open>
  \<open>startRecognition\<close> up to its \<^verbatim>\<open>await\<close> (lines 194-209). The inner
  \<^verbatim>\<open>try { stop() } catch (e) {}\<close> drops whether \<open>stop\<close> threw. The awaited 200 ms
  delay is a timer whose callback is the rest of the function.
\<close>

definition startRecognition :: "ui \<Rightarrow> world \<Rightarrow> world" where
  "startRecognition r s =
     (if \<not> recognitionRef s then s
      else if isSpeaking r then s
      else
        let s1 = clearRestartTimeout s;
            s2 = s1\<lparr>isStartingRef := False\<rparr>;
            s3 = setIsListening False s2;
            s4 = snd (engine_stop s3)
        in snd (setTimeout Settle r 200 s4))"

text \<open>The rest of \<open>startRecognition\<close> (lines 211-223), with the outer \<^verbatim>\<open>catch\<close>.\<close>

definition startRecognition_resume :: "ui \<Rightarrow> world \<Rightarrow> world" where
  "startRecognition_resume r s =
     (let s1 = s\<lparr>isStartingRef := True\<rparr>;
          (threw, s2) = engine_start s1
      in if threw then
           let s3 = s2\<lparr>isStartingRef := False\<rparr>;
               s4 = setIsListening False s3
           in if voiceEnabled r \<and> \<not> isSpeaking r
              then snd (setTimeout StartRecognition r 2000 s4)
              else s4
         else s2)"

text \<open>
  \<open>stopRecognition\<close> calls \<open>stop\<close> outside any \<^verbatim>\<open>try\<close>: when it throws, the rest of
  the function is skipped and the exception goes to the caller (first component
  \<open>True\<close>).
\<close>

definition stopRecognition :: "world \<Rightarrow> bool \<times> world" where
  "stopRecognition s =
     (let (threw, s1) = (if recognitionRef s then engine_stop s else (False, s))
      in if threw then (True, s1)
         else
           let s2 = setIsListening False s1;
               s3 = s2\<lparr>isStartingRef := False\<rparr>
           in (False, clearRestartTimeout s3))"

definition requestMicrophonePermission :: "world \<Rightarrow> bool \<times> world" where
  \<comment> \<open>lines 182-192\<close>
  "requestMicrophonePermission s =
     (let s1 = emit GetUserMedia s in
      if userMediaGranted (outside s)
      then (True, emit StopTracks (setPermissionStatus ''granted'' s1))
      else (False, setPermissionStatus ''denied'' s1))"

definition toggleVoiceInput :: "ui \<Rightarrow> world \<Rightarrow> world" where
  \<comment> \<open>lines 237-256\<close>
  "toggleVoiceInput r s =
     (if \<not> speechSupported r then s
      else if \<not> voiceEnabled r then
        let (granted, s1) =
              (if permissionStatus r = ''denied'' \<or> permissionStatus r = ''unknown''
               then requestMicrophonePermission s else (True, s))
        in if \<not> granted then s1
           else
             let s2 = setVoiceEnabled True s1
             in if \<not> isSpeaking r then startRecognition r s2 else s2
      else snd (stopRecognition (setVoiceEnabled False s)))"

subsection \<open>Playback (lines 304-403)\<close>

definition resumeListening :: "ui \<Rightarrow> world \<Rightarrow> world" where
  \<comment> \<open>\<^verbatim>\<open>if (voiceEnabled) { setTimeout(() => { startRecognition(); }, 500); }\<close>\<close>
  "resumeListening r s =
     (if voiceEnabled r then snd (setTimeout StartRecognition r 500 s) else s)"

definition notSpeaking :: "world \<Rightarrow> world" where
  \<comment> \<open>the four assignments shared by lines 337-340, 352-355, 367-370 and 393-396\<close>
  "notSpeaking s =
     (let s1 = setIsSpeaking False s;
          s2 = setCurrentSpeakingId None s1;
          s3 = s2\<lparr>isStartingRef := False\<rparr>
      in setIsListening False s3)"

definition audio_onended :: "ui \<Rightarrow> nat \<Rightarrow> world \<Rightarrow> world" where
  \<comment> \<open>lines 334-347; \<open>audioUrl\<close> is the object URL the handler closes over\<close>
  "audio_onended r audioUrl s =
     (let s1 = emit (RevokeObjectURL audioUrl) s;
          s2 = s1\<lparr>currentAudioRef := None\<rparr>
      in resumeListening r (notSpeaking s2))"

definition audio_onerror :: "ui \<Rightarrow> nat \<Rightarrow> world \<Rightarrow> world" where
  \<comment> \<open>lines 349-362\<close>
  "audio_onerror r audioUrl s =
     (let s1 = emit (RevokeObjectURL audioUrl) s;
          s2 = s1\<lparr>currentAudioRef := None\<rparr>
      in resumeListening r (notSpeaking s2))"

definition speak_catch :: "ui \<Rightarrow> world \<Rightarrow> world" where
  \<comment> \<open>lines 365-377: the \<^verbatim>\<open>catch\<close> of \<open>speakWithOpenAI\<close>\<close>
  "speak_catch r s = resumeListening r (notSpeaking s)"

definition keyMissing :: "jsstring option \<Rightarrow> bool" where
  \<comment> \<open>\<^verbatim>\<open>!openaiApiKey\<close>: undefined or the empty string\<close>
  "keyMissing k = (case k of None \<Rightarrow> True | Some v \<Rightarrow> v = [])"

text \<open>
  \<open>speakWithOpenAI\<close> up to the TTS request (lines 304-323). The first component says
  whether a request is now awaited.
\<close>

definition speakWithOpenAI :: "ui \<Rightarrow> jsstring \<Rightarrow> nat \<Rightarrow> world \<Rightarrow> bool \<times> world" where
  "speakWithOpenAI r txt messageId s =
     (if keyMissing (openaiApiKey s) then (False, s)
      else
        let s1 = setIsSpeaking True s;
            s2 = setCurrentSpeakingId (Some messageId) s1;
            (threw, s3) = stopRecognition s2
        in if threw then (False, speak_catch r s3)
           else (True, emit (FetchTTS txt) s3))"

text \<open>The outcome of a request: the transport failed, or a response with its status.\<close>

datatype 'a response = Rejected | Response nat 'a

definition ok :: "nat \<Rightarrow> bool" where
  \<comment> \<open>\<^verbatim>\<open>res.ok\<close>\<close>
  "ok status = (200 \<le> status \<and> status \<le> 299)"

text \<open>The rest of \<open>speakWithOpenAI\<close> (lines 325-377), given the TTS outcome.\<close>

definition speakWithOpenAI_resume :: "ui \<Rightarrow> unit response \<Rightarrow> world \<Rightarrow> world" where
  "speakWithOpenAI_resume r res s =
     (case res of
        Rejected \<Rightarrow> speak_catch r s
      | Response status _ \<Rightarrow>
          if \<not> ok status then speak_catch r s
          else
            let audioUrl = nextAudio s;
                s1 = emit (CreateObjectURL audioUrl) (s\<lparr>nextAudio := Suc audioUrl\<rparr>);
                s2 = s1\<lparr>currentAudioRef := Some audioUrl\<rparr>;
                s3 = emit (AudioPlay audioUrl) s2
            in if playRejects (outside s3) then speak_catch r s3 else s3)"

definition stopSpeaking :: "ui \<Rightarrow> world \<Rightarrow> world" where
  \<comment> \<open>lines 388-403\<close>
  "stopSpeaking r s =
     (let s1 = (case currentAudioRef s of
                  Some a \<Rightarrow> emit (AudioRewind a) (emit (AudioPause a) s)
                | None \<Rightarrow> s)
      in resumeListening r (notSpeaking s1))"

subsection \<open>Sending a message (lines 258-302)\<close>

definition failureText :: jsstring where
  "failureText = [0x26A0, 0xFE0F] @ js '' Failed to connect to assistant.''"

text \<open>\<open>sendMessage\<close> up to the backend request (lines 258-275).\<close>

definition sendMessage :: "ui \<Rightarrow> jsstring option \<Rightarrow> world \<Rightarrow> world" where
  "sendMessage r textOverride s =
     (let input = (case textOverride of
                     None \<Rightarrow> query r
                   | Some t \<Rightarrow> if t = [] then query r else t)
      in if trim input = [] then s
         else
           let messageId = dateNow (outside s);
               s1 = setMessages_append
                      \<lparr>msg_sender = User, msg_text = Plain input, msg_id = messageId\<rparr> s;
               s2 = setLoading True s1;
               s3 = setQuery [] s2
           in emit (FetchChat input) s3)"

text \<open>
  The rest of \<open>sendMessage\<close> (lines 277-301), given the backend's outcome. The body is
  \<^verbatim>\<open>data.response\<close>, \<open>None\<close> when the body is not JSON with that field (the
  \<^verbatim>\<open>try\<close> then jumps to its \<^verbatim>\<open>catch\<close> before anything is appended). The
  first component says whether \<open>sendMessage\<close> now awaits the TTS outcome;
  \<open>setLoading(false)\<close> then runs after \<open>speakWithOpenAI\<close> has finished.
\<close>

definition sendMessage_resume ::
  "ui \<Rightarrow> jsstring option response \<Rightarrow> world \<Rightarrow> bool \<times> world" where
  "sendMessage_resume r res s =
     (let failed =
            (False, setLoading False
               (setMessages_append
                  \<lparr>msg_sender = Bot, msg_text = Plain failureText,
                   msg_id = dateNow (outside s) + 2\<rparr>
                  s))
      in case res of
           Rejected \<Rightarrow> failed
         | Response status body \<Rightarrow>
             if \<not> ok status then failed
             else (case body of
                     None \<Rightarrow> failed
                   | Some reply \<Rightarrow>
                       let botMessageId = dateNow (outside s) + 1;
                           s1 = setMessages_append
                                  \<lparr>msg_sender = Bot, msg_text = Formatted reply,
                                   msg_id = botMessageId\<rparr> s
                       in if \<not> muted r then
                            let (awaiting, s2) = speakWithOpenAI r reply botMessageId s1
                            in if awaiting then (True, s2) else (False, setLoading False s2)
                          else (False, setLoading False s1)))"

definition sendMessage_spoken :: "ui \<Rightarrow> unit response \<Rightarrow> world \<Rightarrow> world" where
  \<comment> \<open>the TTS outcome arrives: \<open>speakWithOpenAI\<close> finishes, then line 301\<close>
  "sendMessage_spoken r res s = setLoading False (speakWithOpenAI_resume r res s)"

subsection \<open>Recognition events (lines 92-156) and timers\<close>

definition recognition_onstart :: "world \<Rightarrow> world" where
  "recognition_onstart s =
     (let s1 = setIsListening True s;
          s2 = setPermissionStatus ''listening'' s1
      in s2\<lparr>isStartingRef := False\<rparr>)"

text \<open>\<open>transcript\<close> is \<open>None\<close> when the event carries no alternative.\<close>

definition recognition_onresult :: "ui \<Rightarrow> jsstring option \<Rightarrow> world \<Rightarrow> world" where
  "recognition_onresult r transcript s =
     (if isSpeaking r then s
      else (case transcript of
              None \<Rightarrow> s
            | Some t \<Rightarrow>
                if t \<noteq> [] \<and> 0 < length (trim t) then
                  let s1 = setIsProcessingVoice True s;
                      s2 = setQuery (trim t) s1
                  in snd (setTimeout (SubmitTranscript (trim t)) r 500 s2)
                else s))"

definition recognition_onerror :: "ui \<Rightarrow> string \<Rightarrow> world \<Rightarrow> world" where
  "recognition_onerror r err s =
     (let s1 = setIsListening False s;
          s2 = s1\<lparr>isStartingRef := False\<rparr>
      in if err = ''not-allowed'' then
           setVoiceEnabled False (setPermissionStatus ''denied'' s2)
         else if err = ''no-speech'' then
           (if voiceEnabled r \<and> \<not> isSpeaking r then restartRecognition r s2 else s2)
         else if err = ''audio-capture'' then
           setVoiceEnabled False (setPermissionStatus ''no-microphone'' s2)
         else
           (if voiceEnabled r \<and> \<not> isSpeaking r then restartRecognition r s2 else s2))"

definition recognition_onend :: "ui \<Rightarrow> world \<Rightarrow> world" where
  "recognition_onend r s =
     (let s1 = setIsListening False s;
          s2 = s1\<lparr>isStartingRef := False\<rparr>
      in if voiceEnabled r \<and> \<not> isSpeaking r then restartRecognition r s2 else s2)"

fun run_callback :: "callback \<Rightarrow> ui \<Rightarrow> world \<Rightarrow> world" where
  "run_callback RestartGuard r s =
     (if voiceEnabled r \<and> \<not> isListening r \<and> \<not> isStartingRef s \<and> \<not> isSpeaking r
      then startRecognition r s else s)"
| "run_callback StartRecognition r s = startRecognition r s"
| "run_callback (SubmitTranscript t) r s = setIsProcessingVoice False (sendMessage r (Some t) s)"
| "run_callback Settle r s = startRecognition_resume r s"

text \<open>A pending timer fires: it leaves the list and its callback runs.\<close>

definition fire :: "nat \<Rightarrow> world \<Rightarrow> world" where
  "fire i s =
     (case find (\<lambda>t. tm_id t = i) (timers s) of
        None \<Rightarrow> s
      | Some t \<Rightarrow> run_callback (tm_cb t) (tm_env t) (clearTimeout i s))"

subsection \<open>Scenarios\<close>

text \<open>
  Worlds reached from the initial one by the handlers above, used as concrete inputs.
  After a handler that changes \<open>voiceEnabled\<close> or \<open>isSpeaking\<close>, React re-runs the
  recognition effect (\<open>rerunEffect\<close>). A handler bound to a button or to the input box
  belongs to the latest render (\<open>latest\<close>); a recognition handler belongs to the
  render of the effect's last run; a continuation or a timer callback belongs to the
  render of the handler that created it.
\<close>

definition latest :: "(ui \<Rightarrow> world \<Rightarrow> world) \<Rightarrow> world \<Rightarrow> world" where
  "latest handler s = handler (st s) s"

definition env0 :: env where
  "env0 = \<lparr>dateNow = 1000, stopThrows = False, startThrows = False,
            userMediaGranted = True, playRejects = False\<rparr>"

definition mount :: "jsstring option \<Rightarrow> world" where
  \<comment> \<open>the page is loaded on localhost; the microphone is already granted\<close>
  "mount key =
     latest initRecognition
       (checkSpeechSupport True True (Some ''granted'') (initial key env0))"

definition mounted :: world where
  "mounted = mount (Some (js ''sk-test''))"

definition asking_render :: ui where
  \<comment> \<open>the render after the user has typed \<open>hi\<close>\<close>
  "asking_render = st (setQuery (js ''hi'') mounted)"

definition asked :: world where
  \<comment> \<open>the user presses Enter\<close>
  "asked = latest (\<lambda>r. sendMessage r None) (setQuery (js ''hi'') mounted)"

definition synthesising :: world where
  \<comment> \<open>the backend answers \<open>hello\<close>; the TTS request is under way\<close>
  "synthesising =
     rerunEffect
       (snd (sendMessage_resume asking_render (Response 200 (Some (js ''hello''))) asked))"

definition playing :: world where
  \<comment> \<open>the audio has arrived and plays\<close>
  "playing = sendMessage_spoken asking_render (Response 200 ()) synthesising"

definition tts_refused :: world where
  \<comment> \<open>instead, the TTS service answers with status 500\<close>
  "tts_refused = sendMessage_spoken asking_render (Response 500 ()) synthesising"

definition stopped :: world where
  \<comment> \<open>while the audio plays, the user clicks Stop\<close>
  "stopped = rerunEffect (latest stopSpeaking playing)"

definition voice_on_after_stop :: world where
  \<comment> \<open>the user then switches voice input on\<close>
  "voice_on_after_stop = rerunEffect (latest toggleVoiceInput stopped)"

definition voice_on :: world where
  \<comment> \<open>from \<open>mounted\<close>, the user switches voice input on\<close>
  "voice_on = rerunEffect (latest toggleVoiceInput mounted)"

definition listening_render :: ui where
  \<comment> \<open>the render the recognition handlers close over while voice input is on\<close>
  "listening_render = st voice_on"

definition listening :: world where
  \<comment> \<open>the settle delay (timer 1) passes, the engine starts and reports it\<close>
  "listening = recognition_onstart (fire 1 voice_on)"


definition restarting :: world where
  \<comment> \<open>the engine ends without a result; the restart timer (timer 2) fires\<close>
  "restarting = fire 2 (recognition_onend listening_render listening)"

definition retry_pending :: world where
  \<comment> \<open>the settle delay (timer 3) passes and \<open>start()\<close> throws: the retry (timer 4)
      is armed\<close>
  "retry_pending =
     (fire 3 (restarting\<lparr>outside := env0\<lparr>startThrows := True\<rparr>\<rparr>))\<lparr>outside := env0\<rparr>"

definition two_pending :: world where
  \<comment> \<open>the engine reports the end of its session: the generic restart (timer 5) is
      armed\<close>
  "two_pending = recognition_onend listening_render retry_pending"

definition both_fired :: world where
  \<comment> \<open>the generic restart fires and starts the engine (settle: timer 6); then the
      retry fires and starts it again (settle: timer 7)\<close>
  "both_fired = fire 7 (fire 4 (fire 6 (fire 5 two_pending)))"



definition denied :: world where
  \<comment> \<open>from \<open>retry_pending\<close>, the engine reports that the microphone is not allowed\<close>
  "denied = rerunEffect (recognition_onerror listening_render ''not-allowed'' retry_pending)"

definition retried_after_denial :: world where
  \<comment> \<open>no user action; the pending retry (timer 4) fires, then its settle delay
      (timer 5)\<close>
  "retried_after_denial = fire 5 (fire 4 denied)"

definition asked_without_key :: world where
  \<comment> \<open>as \<open>asked\<close>, on a page built without an API key\<close>
  "asked_without_key =
     latest (\<lambda>r. sendMessage r None) (setQuery (js ''hi'') (mount None))"

definition coconut :: jsstring where
  "coconut = js ''what recipes use coconut milk''"

definition heard :: world where
  \<comment> \<open>while listening, the engine delivers a transcript\<close>
  "heard = recognition_onresult listening_render (Some coconut) listening"

text \<open>
  A conversation by voice. The engine object made when voice input was switched on
  has the handlers of \<open>listening_render\<close>; the one made when speaking begins has the
  handlers of \<open>speaking_render\<close>.
\<close>

definition waiting :: world where
  \<comment> \<open>after the transcript the engine ends (restart: timer 3); the question is sent
      (timer 2); the restart fires, the settle delay (timer 4) passes and the engine
      listens again while the backend works\<close>
  "waiting =
     recognition_onstart
       (fire 4 (fire 3 (fire 2 (recognition_onend listening_render heard))))"

definition voice_synthesising :: world where
  \<comment> \<open>the backend answers \<open>hello\<close>: \<open>speakWithOpenAI\<close> stops the listening engine and
      requests the audio; the effect runs again\<close>
  "voice_synthesising =
     rerunEffect
       (snd (sendMessage_resume listening_render (Response 200 (Some (js ''hello''))) waiting))"

definition speaking_render :: ui where
  \<comment> \<open>the render of the engine object made while speaking\<close>
  "speaking_render = st voice_synthesising"

definition rice :: jsstring where
  "rice = js ''and rice''"

definition late_result :: world where
  \<comment> \<open>the engine that was stopped delivers what it had heard, to its own handler\<close>
  "late_result = recognition_onresult listening_render (Some rice) voice_synthesising"

definition submitted_while_speaking :: world where
  \<comment> \<open>the timer armed by that handler (timer 5) fires\<close>
  "submitted_while_speaking = fire 5 late_result"

definition stale_end :: world where
  \<comment> \<open>from \<open>voice_synthesising\<close>: the engine that was stopped reports its end, to its
      own handler, which arms the restart (timer 5)\<close>
  "stale_end = recognition_onend listening_render voice_synthesising"

definition voice_playing :: world where
  \<comment> \<open>the audio arrives and plays\<close>
  "voice_playing = sendMessage_spoken listening_render (Response 200 ()) stale_end"

definition overhearing :: world where
  \<comment> \<open>the restart fires during playback; its settle delay (timer 6) passes and the
      engine made while speaking starts and reports it\<close>
  "overhearing = recognition_onstart (fire 6 (fire 5 voice_playing))"

definition after_playback :: world where
  \<comment> \<open>playback ends; the effect runs again and its cleanup stops that engine\<close>
  "after_playback = rerunEffect (audio_onended listening_render 1 overhearing)"


section \<open>Properties\<close>

lemmas setters =
  setMessages_append_def setQuery_def setLoading_def setMuted_def setIsListening_def
  setVoiceEnabled_def setSpeechSupported_def setPermissionStatus_def
  setCurrentSpeakingId_def setIsProcessingVoice_def setIsSpeaking_def emit_def

subsection \<open>Trimming\<close>

lemma trim_is_prefix: "\<exists>zs. dropWhile isWhiteSpace t = trim t @ zs"
proof -
  let ?u = "dropWhile isWhiteSpace t"
  have "trim t @ rev (takeWhile isWhiteSpace (rev ?u)) =
          rev (takeWhile isWhiteSpace (rev ?u) @ dropWhile isWhiteSpace (rev ?u))"
    unfolding trim_def rev_append ..
  also have "\<dots> = ?u"
    by simp
  finally show ?thesis by metis
qed

lemma trim_head: "trim t = c # cs \<Longrightarrow> \<not> isWhiteSpace c"
proof -
  assume a: "trim t = c # cs"
  obtain zs where z: "dropWhile isWhiteSpace t = trim t @ zs"
    using trim_is_prefix by blast
  with a have "dropWhile isWhiteSpace t = c # (cs @ zs)" by simp
  then show ?thesis
    by (metis hd_dropWhile list.sel(1) list.distinct(1))
qed

lemma trim_idem: "trim (trim t) = trim t"
proof (cases "trim t")
  case Nil
  have "trim [] = []" by (simp add: trim_def)
  with Nil show ?thesis by simp
next
  case (Cons c cs)
  then have "\<not> isWhiteSpace c" by (rule trim_head)
  with Cons have front: "dropWhile isWhiteSpace (trim t) = trim t" by simp
  have "dropWhile isWhiteSpace (rev (trim t)) = rev (trim t)"
    by (simp add: trim_def)
  with front show ?thesis
    by (simp add: trim_def)
qed

subsection \<open>Transcripts\<close>

text \<open>
  What \<open>recognition.onresult\<close> does with a transcript is decided by the render its
  handler closes over. A handler that sees \<open>isSpeaking\<close> drops the transcript: the
  world is unchanged.
\<close>

lemma onresult_while_speaking:
  assumes "isSpeaking r"
  shows "recognition_onresult r transcript s = s"
  using assms by (simp add: recognition_onresult_def)

text \<open>
  C3 (invariant I4) fails on the code. When speaking begins, \<open>speakWithOpenAI\<close> stops
  the engine that was listening, and the effect makes a new engine object; the stopped
  one keeps its handler, whose render has \<open>isSpeaking\<close> false. It delivers what it had
  heard (\<open>and rice\<close>) while the session is speaking: the handler accepts the transcript,
  stores it as the query and arms the 500 ms timer (timer 5); when the timer fires the
  backend is called, and the session is still speaking.
\<close>

theorem stale_handler_accepts_while_speaking:
  "isSpeaking (st voice_synthesising) \<and> \<not> isSpeaking listening_render
   \<and> map (\<lambda>t. (tm_id t, tm_delay t, tm_cb t)) (timers late_result) =
       [(5, 500, SubmitTranscript rice)]
   \<and> query (st late_result) = rice
   \<and> isSpeaking (st submitted_while_speaking)
   \<and> effects submitted_while_speaking = effects voice_synthesising @ [FetchChat rice]"
proof -
  have "let w = voice_synthesising; w' = recognition_onresult listening_render (Some rice) w;
            w'' = fire 5 w' in
          isSpeaking (st w) \<and> \<not> isSpeaking listening_render
          \<and> map (\<lambda>t. (tm_id t, tm_delay t, tm_cb t)) (timers w') =
              [(5, 500, SubmitTranscript rice)]
          \<and> query (st w') = rice
          \<and> isSpeaking (st w'')
          \<and> effects w'' = effects w @ [FetchChat rice]"
    by code_simp
  then show ?thesis
    unfolding Let_def late_result_def submitted_while_speaking_def .
qed

lemma sendMessage_override:
  assumes "trim t \<noteq> []"
  shows "sendMessage r (Some (trim t)) w =
           w\<lparr>st := (st w)\<lparr>messages := messages (st w) @
                 [\<lparr>msg_sender = User, msg_text = Plain (trim t), msg_id = dateNow (outside w)\<rparr>],
               loading := True, query := []\<rparr>,
             effects := effects w @ [FetchChat (trim t)]\<rparr>"
  using assms by (simp add: sendMessage_def trim_idem setters Let_def)

text \<open>
  A handler that does not see \<open>isSpeaking\<close> and receives a transcript that is not empty
  after trimming arms one timer of 500 ms, stores the trimmed transcript as the query
  and calls nothing yet; when that timer's callback runs, in whatever world \<open>w\<close>, it
  appends the user message and issues exactly one backend request, whose query is the
  trimmed transcript. A transcript that is empty after trimming, or missing, leaves the
  world unchanged.
\<close>

lemma transcript_acceptance:
  "(\<not> isSpeaking r \<and> trim t \<noteq> [] \<longrightarrow>
      timers (recognition_onresult r (Some t) s) =
        timers s @ [\<lparr>tm_id = nextTimer s, tm_delay = 500, tm_cb = SubmitTranscript (trim t),
                     tm_env = r\<rparr>]
      \<and> effects (recognition_onresult r (Some t) s) = effects s
      \<and> messages (st (recognition_onresult r (Some t) s)) = messages (st s)
      \<and> query (st (recognition_onresult r (Some t) s)) = trim t
      \<and> effects (run_callback (SubmitTranscript (trim t)) r w) = effects w @ [FetchChat (trim t)]
      \<and> messages (st (run_callback (SubmitTranscript (trim t)) r w)) =
          messages (st w) @
            [\<lparr>msg_sender = User, msg_text = Plain (trim t), msg_id = dateNow (outside w)\<rparr>])
   \<and> (trim t = [] \<longrightarrow> recognition_onresult r (Some t) s = s)
   \<and> recognition_onresult r None s = s"
proof -
  have empty: "trim t = [] \<longrightarrow> recognition_onresult r (Some t) s = s"
    by (simp add: recognition_onresult_def)
  have none: "recognition_onresult r None s = s"
    by (simp add: recognition_onresult_def)
  have accepted: "\<not> isSpeaking r \<and> trim t \<noteq> [] \<longrightarrow>
      timers (recognition_onresult r (Some t) s) =
        timers s @ [\<lparr>tm_id = nextTimer s, tm_delay = 500, tm_cb = SubmitTranscript (trim t),
                     tm_env = r\<rparr>]
      \<and> effects (recognition_onresult r (Some t) s) = effects s
      \<and> messages (st (recognition_onresult r (Some t) s)) = messages (st s)
      \<and> query (st (recognition_onresult r (Some t) s)) = trim t"
    by (auto simp add: recognition_onresult_def setTimeout_def setters Let_def trim_def)
  have fired: "trim t \<noteq> [] \<longrightarrow>
      effects (run_callback (SubmitTranscript (trim t)) r w) = effects w @ [FetchChat (trim t)]
      \<and> messages (st (run_callback (SubmitTranscript (trim t)) r w)) =
          messages (st w) @
            [\<lparr>msg_sender = User, msg_text = Plain (trim t), msg_id = dateNow (outside w)\<rparr>]"
    by (simp add: sendMessage_override setters)
  from empty none accepted fired show ?thesis by blast
qed

text \<open>
  Scenario B: while listening, the engine delivers \<open>what recipes use coconut milk\<close> to
  the handler of the listening render; the timer it arms has id 2. A transcript of two
  blanks is dropped.
\<close>

lemma scenario_B:
  "\<not> isSpeaking listening_render \<and> trim coconut = coconut \<and> coconut \<noteq> []
   \<and> map (\<lambda>t. (tm_id t, tm_delay t, tm_cb t)) (timers heard) = [(2, 500, SubmitTranscript coconut)]
   \<and> effects heard = effects listening
   \<and> effects (fire 2 heard) = effects listening @ [FetchChat coconut]
   \<and> messages (st (fire 2 heard)) =
       [\<lparr>msg_sender = User, msg_text = Plain coconut, msg_id = 1000\<rparr>]
   \<and> trim (js ''  '') = []
   \<and> recognition_onresult listening_render (Some (js ''  '')) listening = listening"
proof -
  have quiet: "\<not> isSpeaking listening_render"
    by code_simp
  have trimmed: "trim coconut = coconut"
    by code_simp
  have nonempty: "coconut \<noteq> []"
    by code_simp
  have blank: "trim (js ''  '') = []"
    by code_simp
  have pending: "timers listening = []" and next_id: "nextTimer listening = 2"
    and said: "messages (st listening) = []" and clock: "dateNow (outside heard) = 1000"
    by code_simp+
  have fire_eq: "fire 2 heard = run_callback (SubmitTranscript coconut) listening_render (clearTimeout 2 heard)"
    using transcript_acceptance [where r = listening_render and t = coconut and s = listening]
      quiet trimmed nonempty pending next_id
    by (simp add: heard_def fire_def)
  have a: "timers heard = [\<lparr>tm_id = 2, tm_delay = 500, tm_cb = SubmitTranscript coconut, tm_env = listening_render\<rparr>]
           \<and> effects heard = effects listening \<and> messages (st heard) = []"
    using transcript_acceptance [where r = listening_render and t = coconut and s = listening]
      quiet trimmed nonempty pending next_id said
    by (simp add: heard_def)
  have b: "effects (fire 2 heard) = effects listening @ [FetchChat coconut]
       \<and> messages (st (fire 2 heard)) =
       [\<lparr>msg_sender = User, msg_text = Plain coconut, msg_id = 1000\<rparr>]"
    using transcript_acceptance [where r = listening_render and t = coconut
        and w = "clearTimeout 2 heard"] quiet trimmed nonempty a clock
    by (simp add: fire_eq clearTimeout_def)
  have c: "recognition_onresult listening_render (Some (js ''  '')) listening = listening"
    using transcript_acceptance [where t = "js ''  ''"] blank by simp
  from quiet trimmed nonempty a b blank c show ?thesis
    by simp
qed

text \<open>
  C9 fails on the code. The engine object made while speaking has a handler whose
  render has \<open>isSpeaking\<close> true. Here the engine that was stopped when speaking began
  reports its end to its own handler, which arms the restart; the restart fires during
  playback and starts the new engine. When playback has ended the session is no longer
  speaking; the cleanup stops that engine, which delivers what it had heard to its
  handler, and the handler drops the transcript: nothing is stored, no timer is armed
  and no backend call follows.
\<close>

theorem stale_handler_drops_after_playback:
  "isSpeaking speaking_render
   \<and> isSpeaking (st overhearing) \<and> currentAudioRef overhearing = Some 1
   \<and> effects overhearing = effects voice_playing @ [RecStop, RecStart]
   \<and> \<not> isSpeaking (st after_playback)
   \<and> trim coconut = coconut \<and> coconut \<noteq> []
   \<and> recognition_onresult speaking_render (Some coconut) after_playback = after_playback"
proof -
  have "let p = voice_playing; w = recognition_onstart (fire 6 (fire 5 p));
            w' = rerunEffect (audio_onended listening_render 1 w) in
          isSpeaking speaking_render
          \<and> isSpeaking (st w) \<and> currentAudioRef w = Some 1
          \<and> effects w = effects p @ [RecStop, RecStart]
          \<and> \<not> isSpeaking (st w')
          \<and> trim coconut = coconut \<and> coconut \<noteq> []"
    by code_simp
  then have facts: "isSpeaking speaking_render
          \<and> isSpeaking (st overhearing) \<and> currentAudioRef overhearing = Some 1
          \<and> effects overhearing = effects voice_playing @ [RecStop, RecStart]
          \<and> \<not> isSpeaking (st after_playback)
          \<and> trim coconut = coconut \<and> coconut \<noteq> []"
    unfolding Let_def overhearing_def after_playback_def .
  then have "recognition_onresult speaking_render (Some coconut) after_playback = after_playback"
    by (simp add: recognition_onresult_def)
  with facts show ?thesis
    by blast
qed

subsection \<open>A page without an API key\<close>

text \<open>
  C10. Without an API key \<open>speakWithOpenAI\<close> returns at once and leaves the world as
  it is; the continuation of \<open>sendMessage\<close> on a successful answer then only appends
  the bot message and clears \<open>loading\<close>, whether muted or not: no command is issued, no
  timer is armed, \<open>isSpeaking\<close> and the recognition flags keep their values.
\<close>

theorem no_key_no_speech:
  "keyMissing (openaiApiKey s) \<longrightarrow>
     speakWithOpenAI r txt i s = (False, s)
     \<and> (ok status \<longrightarrow>
          sendMessage_resume r (Response status (Some reply)) s =
            (False,
             s\<lparr>st := (st s)\<lparr>messages := messages (st s) @
                   [\<lparr>msg_sender = Bot, msg_text = Formatted reply,
                     msg_id = dateNow (outside s) + 1\<rparr>],
                 loading := False\<rparr>\<rparr>))"
  by (simp add: speakWithOpenAI_def sendMessage_resume_def setters Let_def)

text \<open>The backend answers \<open>hello\<close> on a page without a key, not muted.\<close>

theorem no_key_no_speech_witness:
  "keyMissing (openaiApiKey asked_without_key) \<and> ok 200 \<and> \<not> muted asking_render
   \<and> sendMessage_resume asking_render (Response 200 (Some (js ''hello''))) asked_without_key =
       (False,
        asked_without_key\<lparr>st := (st asked_without_key)\<lparr>messages :=
             [\<lparr>msg_sender = User, msg_text = Plain (js ''hi''), msg_id = 1000\<rparr>,
              \<lparr>msg_sender = Bot, msg_text = Formatted (js ''hello''), msg_id = 1001\<rparr>],
           loading := False\<rparr>\<rparr>)
   \<and> effects asked_without_key = [FetchChat (js ''hi'')]
   \<and> \<not> isSpeaking (st asked_without_key)"
proof -
  have nokey: "keyMissing (openaiApiKey asked_without_key)"
    by code_simp
  have fine: "ok 200"
    by (simp add: ok_def)
  have loud: "\<not> muted asking_render"
    by code_simp
  have before: "messages (st asked_without_key) =
      [\<lparr>msg_sender = User, msg_text = Plain (js ''hi''), msg_id = 1000\<rparr>]"
    and clock: "dateNow (outside asked_without_key) = 1000"
    and issued: "effects asked_without_key = [FetchChat (js ''hi'')]"
    and silent: "\<not> isSpeaking (st asked_without_key)"
    by code_simp+
  from no_key_no_speech [where s = asked_without_key and status = 200
      and r = asking_render and reply = "js ''hello''"] nokey fine
  have "sendMessage_resume asking_render (Response 200 (Some (js ''hello''))) asked_without_key =
       (False,
        asked_without_key\<lparr>st := (st asked_without_key)\<lparr>messages :=
             [\<lparr>msg_sender = User, msg_text = Plain (js ''hi''), msg_id = 1000\<rparr>,
              \<lparr>msg_sender = Bot, msg_text = Formatted (js ''hello''), msg_id = 1001\<rparr>],
           loading := False\<rparr>\<rparr>)"
    by (simp add: before clock)
  with nokey fine loud issued silent show ?thesis
    by simp
qed

subsection \<open>Speaking and the playback handle\<close>

lemma notSpeaking_fields:
  "\<not> isSpeaking (st (notSpeaking s))" "currentAudioRef (notSpeaking s) = currentAudioRef s"
  "effects (notSpeaking s) = effects s" "timers (notSpeaking s) = timers s"
  "messages (st (notSpeaking s)) = messages (st s)" "nextTimer (notSpeaking s) = nextTimer s"
  "\<not> isListening (st (notSpeaking s))" "\<not> isStartingRef (notSpeaking s)"
  "currentSpeakingId (st (notSpeaking s)) = None"
  by (simp_all add: notSpeaking_def setters Let_def)

lemma resumeListening_fields:
  "st (resumeListening r s) = st s" "currentAudioRef (resumeListening r s) = currentAudioRef s"
  "effects (resumeListening r s) = effects s"
  "isStartingRef (resumeListening r s) = isStartingRef s"
  "timers (resumeListening r s) =
     timers s @ (if voiceEnabled r
                 then [\<lparr>tm_id = nextTimer s, tm_delay = 500, tm_cb = StartRecognition, tm_env = r\<rparr>]
                 else [])"
  by (simp_all add: resumeListening_def setTimeout_def)





subsection \<open>Starting recognition\<close>






subsection \<open>Failed requests\<close>

lemma speak_catch_fields:
  "messages (st (speak_catch r s)) = messages (st s)"
  "effects (speak_catch r s) = effects s"
  "\<not> isSpeaking (st (speak_catch r s))"
  "timers (speak_catch r s) =
     timers s @ (if voiceEnabled r
                 then [\<lparr>tm_id = nextTimer s, tm_delay = 500, tm_cb = StartRecognition, tm_env = r\<rparr>]
                 else [])"
  by (simp_all add: speak_catch_def resumeListening_fields notSpeaking_fields)

lemma sendMessage_failed:
  "sendMessage_resume r Rejected s =
     (False, s\<lparr>st := (st s)\<lparr>messages := messages (st s) @
         [\<lparr>msg_sender = Bot, msg_text = Plain failureText, msg_id = dateNow (outside s) + 2\<rparr>],
       loading := False\<rparr>\<rparr>)"
  "\<not> ok status \<Longrightarrow> sendMessage_resume r (Response status body) s =
     (False, s\<lparr>st := (st s)\<lparr>messages := messages (st s) @
         [\<lparr>msg_sender = Bot, msg_text = Plain failureText, msg_id = dateNow (outside s) + 2\<rparr>],
       loading := False\<rparr>\<rparr>)"
  "sendMessage_resume r (Response status None) s =
     (False, s\<lparr>st := (st s)\<lparr>messages := messages (st s) @
         [\<lparr>msg_sender = Bot, msg_text = Plain failureText, msg_id = dateNow (outside s) + 2\<rparr>],
       loading := False\<rparr>\<rparr>)"
  by (simp_all add: sendMessage_resume_def setters Let_def)

lemma tts_failed:
  assumes "res = Rejected \<or> (\<exists>status u. res = Response status u \<and> \<not> ok status)"
  shows "sendMessage_spoken r res s = setLoading False (speak_catch r s)"
  using assms by (auto simp add: sendMessage_spoken_def speakWithOpenAI_resume_def)

text \<open>
  C8 as stated fails for the TTS request: \<open>speakWithOpenAI\<close> catches its own failure
  and only logs it, so nothing is appended to the conversation. Here the TTS service
  answers with status 500; the log holds the question and the answer, as before.
\<close>

theorem tts_failure_appends_nothing:
  "\<not> ok 500
   \<and> messages (st tts_refused) =
       [\<lparr>msg_sender = User, msg_text = Plain (js ''hi''), msg_id = 1000\<rparr>,
        \<lparr>msg_sender = Bot, msg_text = Formatted (js ''hello''), msg_id = 1001\<rparr>]
   \<and> messages (st tts_refused) = messages (st synthesising)"
proof -
  have "let w = synthesising; w' = sendMessage_spoken asking_render (Response 500 ()) w in
          \<not> ok 500
          \<and> messages (st w') =
              [\<lparr>msg_sender = User, msg_text = Plain (js ''hi''), msg_id = 1000\<rparr>,
               \<lparr>msg_sender = Bot, msg_text = Formatted (js ''hello''), msg_id = 1001\<rparr>]
          \<and> messages (st w') = messages (st w)"
    by code_simp
  then show ?thesis
    unfolding Let_def tts_refused_def .
qed

text \<open>
  C8, amended. A failed backend request (the transport fails, the status is not 2xx, or
  the body has no usable answer) appends exactly one bot message, the failure text,
  and clears \<open>loading\<close>; nothing else changes: no command is issued and no timer is
  armed. A failed TTS request (the transport fails or the status is not 2xx) appends
  no message and issues no command; it clears \<open>isSpeaking\<close> and \<open>loading\<close> and, when
  the sending render had voice input on, arms one timer of 500 ms that calls
  \<open>startRecognition\<close>.
\<close>

theorem request_failure_recovery:
  "(res = Rejected \<or> (\<exists>status body. res = Response status body \<and> (body = None \<or> \<not> ok status)) \<longrightarrow>
      sendMessage_resume r res s =
        (False, s\<lparr>st := (st s)\<lparr>messages := messages (st s) @
            [\<lparr>msg_sender = Bot, msg_text = Plain failureText, msg_id = dateNow (outside s) + 2\<rparr>],
          loading := False\<rparr>\<rparr>))
   \<and> (tts = Rejected \<or> (\<exists>status u. tts = Response status u \<and> \<not> ok status) \<longrightarrow>
        messages (st (sendMessage_spoken r tts s)) = messages (st s)
        \<and> effects (sendMessage_spoken r tts s) = effects s
        \<and> \<not> isSpeaking (st (sendMessage_spoken r tts s))
        \<and> \<not> loading (st (sendMessage_spoken r tts s))
        \<and> timers (sendMessage_spoken r tts s) =
            timers s @ (if voiceEnabled r
                        then [\<lparr>tm_id = nextTimer s, tm_delay = 500, tm_cb = StartRecognition,
                               tm_env = r\<rparr>]
                        else []))"
proof -
  have backend: "res = Rejected \<or> (\<exists>status body. res = Response status body \<and> (body = None \<or> \<not> ok status)) \<longrightarrow>
      sendMessage_resume r res s =
        (False, s\<lparr>st := (st s)\<lparr>messages := messages (st s) @
            [\<lparr>msg_sender = Bot, msg_text = Plain failureText, msg_id = dateNow (outside s) + 2\<rparr>],
          loading := False\<rparr>\<rparr>)"
    by (auto simp add: sendMessage_failed)
  have speech: "tts = Rejected \<or> (\<exists>status u. tts = Response status u \<and> \<not> ok status) \<longrightarrow>
        messages (st (sendMessage_spoken r tts s)) = messages (st s)
        \<and> effects (sendMessage_spoken r tts s) = effects s
        \<and> \<not> isSpeaking (st (sendMessage_spoken r tts s))
        \<and> \<not> loading (st (sendMessage_spoken r tts s))
        \<and> timers (sendMessage_spoken r tts s) =
            timers s @ (if voiceEnabled r
                        then [\<lparr>tm_id = nextTimer s, tm_delay = 500, tm_cb = StartRecognition,
                               tm_env = r\<rparr>]
                        else [])"
  proof
    assume "tts = Rejected \<or> (\<exists>status u. tts = Response status u \<and> \<not> ok status)"
    then have eq: "sendMessage_spoken r tts s = setLoading False (speak_catch r s)"
      by (rule tts_failed)
    have kept: "\<And>x. messages (st (setLoading False x)) = messages (st x)"
      "\<And>x. effects (setLoading False x) = effects x"
      "\<And>x. isSpeaking (st (setLoading False x)) = isSpeaking (st x)"
      "\<And>x. \<not> loading (st (setLoading False x))"
      "\<And>x. timers (setLoading False x) = timers x"
      by (simp_all add: setLoading_def)
    show "messages (st (sendMessage_spoken r tts s)) = messages (st s)
        \<and> effects (sendMessage_spoken r tts s) = effects s
        \<and> \<not> isSpeaking (st (sendMessage_spoken r tts s))
        \<and> \<not> loading (st (sendMessage_spoken r tts s))
        \<and> timers (sendMessage_spoken r tts s) =
            timers s @ (if voiceEnabled r
                        then [\<lparr>tm_id = nextTimer s, tm_delay = 500, tm_cb = StartRecognition,
                               tm_env = r\<rparr>]
                        else [])"
      by (simp add: eq kept speak_catch_fields)
  qed
  from backend speech show ?thesis by blast
qed

text \<open>The backend request is rejected; the TTS service answers with status 500.\<close>

theorem request_failure_recovery_witness:
  "sendMessage_resume asking_render Rejected asked =
     (False, asked\<lparr>st := (st asked)\<lparr>messages :=
         [\<lparr>msg_sender = User, msg_text = Plain (js ''hi''), msg_id = 1000\<rparr>,
          \<lparr>msg_sender = Bot, msg_text = Plain failureText, msg_id = 1002\<rparr>],
       loading := False\<rparr>\<rparr>)
   \<and> \<not> ok 500
   \<and> messages (st tts_refused) = messages (st synthesising)
   \<and> effects tts_refused = effects synthesising
   \<and> \<not> isSpeaking (st tts_refused) \<and> \<not> loading (st tts_refused)
   \<and> \<not> voiceEnabled asking_render \<and> timers tts_refused = timers synthesising"
proof -
  have "let w = asked in
          messages (st w) = [\<lparr>msg_sender = User, msg_text = Plain (js ''hi''), msg_id = 1000\<rparr>]
          \<and> dateNow (outside w) = 1000 \<and> \<not> voiceEnabled asking_render"
    by code_simp
  then have said: "messages (st asked) =
        [\<lparr>msg_sender = User, msg_text = Plain (js ''hi''), msg_id = 1000\<rparr>]"
    and clock: "dateNow (outside asked) = 1000" and off: "\<not> voiceEnabled asking_render"
    by (simp_all add: Let_def)
  have refused: "\<not> ok 500"
    by (simp add: ok_def)
  note backend = request_failure_recovery [where res = Rejected and r = asking_render and s = asked]
    and speech = request_failure_recovery [where tts = "Response 500 ()" and r = asking_render
        and s = synthesising]
  from backend said clock
  have 1: "sendMessage_resume asking_render Rejected asked =
     (False, asked\<lparr>st := (st asked)\<lparr>messages :=
         [\<lparr>msg_sender = User, msg_text = Plain (js ''hi''), msg_id = 1000\<rparr>,
          \<lparr>msg_sender = Bot, msg_text = Plain failureText, msg_id = 1002\<rparr>],
       loading := False\<rparr>\<rparr>)"
    by simp
  from speech refused off
  have 2: "messages (st tts_refused) = messages (st synthesising)
   \<and> effects tts_refused = effects synthesising
   \<and> \<not> isSpeaking (st tts_refused) \<and> \<not> loading (st tts_refused)
   \<and> timers tts_refused = timers synthesising"
    by (simp add: tts_refused_def)
  from 1 2 refused off show ?thesis
    by simp
qed

subsection \<open>Stop, pending timers and the terminal error\<close>

text \<open>
  C5 fails on the code for the Stop path. The answer \<open>hello\<close> plays from object URL 1.
  Natural completion and playback failure revoke the URL, once. \<open>stopSpeaking\<close> pauses
  and rewinds the audio and nothing more: the URL is not revoked and the handle
  still holds the audio.
\<close>

theorem stop_never_revokes:
  "effects playing =
     [FetchChat (js ''hi''), RecStop, FetchTTS (js ''hello''), RecStop, CreateObjectURL 1,
      AudioPlay 1]
   \<and> effects (latest stopSpeaking playing) = effects playing @ [AudioPause 1, AudioRewind 1]
   \<and> currentAudioRef (latest stopSpeaking playing) = Some 1
   \<and> effects (audio_onended asking_render 1 playing) = effects playing @ [RevokeObjectURL 1]
   \<and> effects (audio_onerror asking_render 1 playing) = effects playing @ [RevokeObjectURL 1]"
proof -
  have "let w = playing; w' = latest stopSpeaking w in
          effects w =
            [FetchChat (js ''hi''), RecStop, FetchTTS (js ''hello''), RecStop, CreateObjectURL 1,
             AudioPlay 1]
          \<and> effects w' = effects w @ [AudioPause 1, AudioRewind 1]
          \<and> currentAudioRef w' = Some 1
          \<and> effects (audio_onended asking_render 1 w) = effects w @ [RevokeObjectURL 1]
          \<and> effects (audio_onerror asking_render 1 w) = effects w @ [RevokeObjectURL 1]"
    by code_simp
  then show ?thesis
    unfolding Let_def .
qed

text \<open>
  C2 (invariant I2) fails on the code. After Stop the handle still holds the paused
  audio. The user switches voice input on: \<open>startRecognition\<close> looks at \<open>isSpeaking\<close>,
  not at the handle, and when the settle delay (timer 1) has passed the engine is
  started while the handle is non-null.
\<close>

theorem start_with_handle_after_stop:
  "currentAudioRef voice_on_after_stop = Some 1
   \<and> \<not> isSpeaking (st voice_on_after_stop)
   \<and> effects (fire 1 voice_on_after_stop) = effects voice_on_after_stop @ [RecStart]"
proof -
  have "let w = voice_on_after_stop in
          currentAudioRef w = Some 1 \<and> \<not> isSpeaking (st w)
          \<and> effects (fire 1 w) = effects w @ [RecStart]"
    by code_simp
  then show ?thesis
    unfolding Let_def .
qed

text \<open>
  C4 (invariant I3) fails on the code. Only \<open>restartRecognition\<close> records its timer in
  \<open>restartTimeoutRef\<close> and cancels the recorded one. With the start-failure retry
  (timer 4, 2000 ms) pending, the engine's end event arms the generic restart (timer 5,
  1000 ms) beside it; both fire, and the engine is stopped and started twice.
\<close>

theorem two_restart_timers_pending:
  "map (\<lambda>t. (tm_id t, tm_delay t, tm_cb t)) (timers retry_pending) = [(4, 2000, StartRecognition)]
   \<and> map (\<lambda>t. (tm_id t, tm_delay t, tm_cb t)) (timers two_pending) =
       [(4, 2000, StartRecognition), (5, 1000, RestartGuard)]
   \<and> effects both_fired = effects two_pending @ [RecStop, RecStart, RecStop, RecStart]"
proof -
  have "let w = retry_pending; w' = recognition_onend listening_render w in
          map (\<lambda>t. (tm_id t, tm_delay t, tm_cb t)) (timers w) = [(4, 2000, StartRecognition)]
          \<and> map (\<lambda>t. (tm_id t, tm_delay t, tm_cb t)) (timers w') =
              [(4, 2000, StartRecognition), (5, 1000, RestartGuard)]
          \<and> effects (fire 7 (fire 4 (fire 6 (fire 5 w')))) =
              effects w' @ [RecStop, RecStart, RecStop, RecStart]"
    by code_simp
  then show ?thesis
    unfolding Let_def two_pending_def both_fired_def .
qed

text \<open>
  C6 fails on the code in its last part. The error handler disables voice input,
  records \<open>denied\<close> and arms nothing. But the start-failure retry (timer 4) that was
  pending when the error arrived is not cancelled, and \<open>startRecognition\<close> does not look
  at \<open>voiceEnabled\<close>: with no user action the retry fires and the engine is started
  again.
\<close>

theorem start_after_denial:
  "\<not> voiceEnabled (st denied) \<and> permissionStatus (st denied) = ''denied''
   \<and> map (\<lambda>t. (tm_id t, tm_delay t, tm_cb t)) (timers denied) = [(4, 2000, StartRecognition)]
   \<and> effects retried_after_denial = effects denied @ [RecStop, RecStart]"
proof -
  have "let w = denied in
          \<not> voiceEnabled (st w) \<and> permissionStatus (st w) = ''denied''
          \<and> map (\<lambda>t. (tm_id t, tm_delay t, tm_cb t)) (timers w) = [(4, 2000, StartRecognition)]
          \<and> effects (fire 5 (fire 4 w)) = effects w @ [RecStop, RecStart]"
    by code_simp
  then show ?thesis
    unfolding Let_def retried_after_denial_def .
qed

end
